theory Spec2Isabelle
  imports Main "HOL-Library.Word" "HOL-Library.Multiset" "HOL-Library.Char_ord" "HOL-Library.List_Lexorder"
begin

section \<open>The tunnel configuration model (package ipsec)\<close>

text \<open>
  The Go source declares its enumerations as named string types with constants
  (\<^verbatim>\<open>type AuthType string\<close> and so on). A value of such a type can be any string, so
  the types are strings here and the constants are the strings of the source.
\<close>

type_synonym IPsecMode = string
type_synonym AuthType = string
type_synonym EncryptionAlgorithm = string
type_synonym IntegrityAlgorithm = string
type_synonym DHGroup = string
type_synonym IKEVersion = string
type_synonym TunnelState = string

text \<open>\<^verbatim>\<open>time.Duration\<close> is a count of nanoseconds; the code only compares durations with
  constants, so they are integers. \<^verbatim>\<open>time.Time\<close> is an instant, also an integer here.\<close>

type_synonym Duration = int
type_synonym Time = int

text \<open>A Go string is a sequence of bytes and \<^verbatim>\<open>len\<close> is the number of its bytes: a
  \<open>string\<close> here is the list of the bytes, and \<open>length\<close> counts them.\<close>

text \<open>A Go \<^verbatim>\<open>error\<close> returned by a collaborator (backend, HTTP client) is its message.\<close>

type_synonym error = string

definition ModeESPTunnel :: IPsecMode where "ModeESPTunnel = ''esp-tunnel''"
definition ModeESPTransport :: IPsecMode where "ModeESPTransport = ''esp-transport''"
definition ModeAHTunnel :: IPsecMode where "ModeAHTunnel = ''ah-tunnel''"
definition ModeAHTransport :: IPsecMode where "ModeAHTransport = ''ah-transport''"
definition ModeESPAHTunnel :: IPsecMode where "ModeESPAHTunnel = ''esp-ah-tunnel''"

definition AuthPSK :: AuthType where "AuthPSK = ''psk''"
definition AuthCertificate :: AuthType where "AuthCertificate = ''certificate''"

definition EncryptionAES128 :: EncryptionAlgorithm where "EncryptionAES128 = ''aes128''"
definition EncryptionAES256 :: EncryptionAlgorithm where "EncryptionAES256 = ''aes256''"
definition EncryptionAES128GCM :: EncryptionAlgorithm where "EncryptionAES128GCM = ''aes128gcm''"
definition EncryptionAES256GCM :: EncryptionAlgorithm where "EncryptionAES256GCM = ''aes256gcm''"
definition Encryption3DES :: EncryptionAlgorithm where "Encryption3DES = ''3des''"

definition IntegritySHA1 :: IntegrityAlgorithm where "IntegritySHA1 = ''sha1''"
definition IntegritySHA256 :: IntegrityAlgorithm where "IntegritySHA256 = ''sha256''"
definition IntegritySHA384 :: IntegrityAlgorithm where "IntegritySHA384 = ''sha384''"
definition IntegritySHA512 :: IntegrityAlgorithm where "IntegritySHA512 = ''sha512''"

definition DHGroupModp1024 :: DHGroup where "DHGroupModp1024 = ''modp1024''"
definition DHGroupModp1536 :: DHGroup where "DHGroupModp1536 = ''modp1536''"
definition DHGroupModp2048 :: DHGroup where "DHGroupModp2048 = ''modp2048''"
definition DHGroupModp3072 :: DHGroup where "DHGroupModp3072 = ''modp3072''"
definition DHGroupModp4096 :: DHGroup where "DHGroupModp4096 = ''modp4096''"
definition DHGroupModp8192 :: DHGroup where "DHGroupModp8192 = ''modp8192''"
definition DHGroupECP256 :: DHGroup where "DHGroupECP256 = ''ecp256''"
definition DHGroupECP384 :: DHGroup where "DHGroupECP384 = ''ecp384''"
definition DHGroupECP521 :: DHGroup where "DHGroupECP521 = ''ecp521''"

definition IKEv1 :: IKEVersion where "IKEv1 = ''ikev1''"
definition IKEv2 :: IKEVersion where "IKEv2 = ''ikev2''"

definition StateDown :: TunnelState where "StateDown = ''down''"
definition StateConnecting :: TunnelState where "StateConnecting = ''connecting''"
definition StateRekeying :: TunnelState where "StateRekeying = ''rekeying''"

definition Second :: Duration where "Second = 1000000000"
definition Minute :: Duration where "Minute = 60 * Second"
definition Hour :: Duration where "Hour = 60 * Minute"

record CryptoConfig =
  Encryption :: EncryptionAlgorithm
  Integrity :: IntegrityAlgorithm
  DHGroup :: DHGroup
  IKEVersion :: IKEVersion
  Lifetime :: Duration

record AuthConfig =
  Type :: AuthType
  Secret :: string
  CertPath :: string
  KeyPath :: string
  CACertPath :: string

record TrafficSelector =
  LocalSubnet :: string
  RemoteSubnet :: string
  Protocol :: string
  LocalPort :: "16 word"
  RemotePort :: "16 word"

record DPDConfig =
  Delay :: Duration
  Action :: string

record TunnelConfig =
  Name :: string
  Mode :: IPsecMode
  LocalAddress :: string
  RemoteAddress :: string
  LocalID :: string
  RemoteID :: string
  Crypto :: CryptoConfig
  Auth :: AuthConfig
  TrafficSelectors :: "TrafficSelector list"
  DPD :: DPDConfig
  AutoStart :: bool
  Mark :: string

text \<open>The fields of \<^verbatim>\<open>TunnelStatus\<close> that share a name with a field of
  \<^verbatim>\<open>TunnelConfig\<close> carry the prefix \<open>Status\<close>.\<close>

record TunnelStatus =
  StatusName :: string
  State :: TunnelState
  StatusLocalAddress :: string
  StatusRemoteAddress :: string
  EstablishedAt :: Time
  LastRekeyAt :: Time
  BytesIn :: "64 word"
  BytesOut :: "64 word"
  PacketsIn :: "64 word"
  PacketsOut :: "64 word"
  Uptime :: Duration
  ErrorMessage :: string
  CurrentCrypto :: CryptoConfig

section \<open>Policies and peers (package policy)\<close>

text \<open>The fields \<^verbatim>\<open>ID\<close>, \<^verbatim>\<open>Name\<close> and \<^verbatim>\<open>Version\<close> of \<^verbatim>\<open>Policy\<close> and
  \<^verbatim>\<open>PeerInfo\<close> carry the prefix of their struct.\<close>

record Policy =
  PolicyID :: string
  PolicyName :: string
  Description :: string
  PolicyVersion :: int
  CreatedAt :: Time
  UpdatedAt :: Time
  Enabled :: bool
  Tunnels :: "TunnelConfig list"
  AppliesTo :: "string list"
  Priority :: int

type_synonym PeerStatus = string

definition PeerStatusOnline :: PeerStatus where "PeerStatusOnline = ''online''"
definition PeerStatusOffline :: PeerStatus where "PeerStatusOffline = ''offline''"
definition PeerStatusError :: PeerStatus where "PeerStatusError = ''error''"

record PeerInfo =
  PeerID :: string
  Hostname :: string
  Platform :: string
  IPAddress :: string
  PeerVersion :: string
  Tags :: "string list"
  LastSeenAt :: Time
  RegisteredAt :: Time
  Metadata :: "string \<rightharpoonup> string"
  Status :: PeerStatus

subsection \<open>Validation errors\<close>

text \<open>
  Every \<^verbatim>\<open>fmt.Errorf\<close> of the validators is a constructor, with the values the message
  formats (tunnel index, tunnel name, offending value) as arguments. The rule group
  is the validator that returned the error.
\<close>

datatype tunnel_error =
    TunnelNameRequired
  | LocalAddressRequired
  | RemoteAddressRequired
  | TrafficSelectorRequired
  | LocalSubnetRequired nat
  | RemoteSubnetRequired nat

datatype basic_error =
    PolicyNameRequired
  | TunnelConfigurationRequired
  | InTunnel nat string tunnel_error

datatype security_error =
    PSKSecretRequired nat string
  | PSKSecretTooShort nat string
  | CertificatePathRequired nat string
  | PrivateKeyPathRequired nat string
  | InvalidEncryption nat string EncryptionAlgorithm
  | InvalidIntegrity nat string IntegrityAlgorithm
  | InvalidDHGroup nat string DHGroup
  | LifetimeUnspecified nat string
  | LifetimeTooShort nat string
  | LifetimeTooLong nat string

datatype platform_error = GCMRequiresIKEv2 nat string

datatype validator_error =
    Structural basic_error
  | Security security_error
  | PlatformCompatibility platform_error

datatype validation_error = PolicyValidationFailed validator_error

subsection \<open>BasicValidator\<close>

fun validateSelectors :: "nat \<Rightarrow> TrafficSelector list \<Rightarrow> tunnel_error option" where
  "validateSelectors i [] = None"
| "validateSelectors i (ts # rest) =
     (if LocalSubnet ts = [] then Some (LocalSubnetRequired i)
      else if RemoteSubnet ts = [] then Some (RemoteSubnetRequired i)
      else validateSelectors (Suc i) rest)"

definition validateTunnel :: "TunnelConfig \<Rightarrow> tunnel_error option" where
  "validateTunnel tunnel =
     (if Name tunnel = [] then Some TunnelNameRequired
      else if LocalAddress tunnel = [] then Some LocalAddressRequired
      else if RemoteAddress tunnel = [] then Some RemoteAddressRequired
      else if length (TrafficSelectors tunnel) = 0 then Some TrafficSelectorRequired
      else validateSelectors 0 (TrafficSelectors tunnel))"

fun basicTunnels :: "nat \<Rightarrow> TunnelConfig list \<Rightarrow> basic_error option" where
  "basicTunnels i [] = None"
| "basicTunnels i (tunnel # rest) =
     (case validateTunnel tunnel of
        Some err \<Rightarrow> Some (InTunnel i (Name tunnel) err)
      | None \<Rightarrow> basicTunnels (Suc i) rest)"

definition BasicValidator_Validate :: "Policy \<Rightarrow> basic_error option" where
  "BasicValidator_Validate policy =
     (if PolicyName policy = [] then Some PolicyNameRequired
      else if length (Tunnels policy) = 0 then Some TunnelConfigurationRequired
      else basicTunnels 0 (Tunnels policy))"

subsection \<open>SecurityValidator\<close>

definition isValidEncryption :: "EncryptionAlgorithm \<Rightarrow> bool" where
  "isValidEncryption alg \<longleftrightarrow>
     alg \<in> set [EncryptionAES128, EncryptionAES256, EncryptionAES128GCM,
                    EncryptionAES256GCM, Encryption3DES]"

definition isValidIntegrity :: "IntegrityAlgorithm \<Rightarrow> bool" where
  "isValidIntegrity alg \<longleftrightarrow>
     alg \<in> set [IntegritySHA1, IntegritySHA256, IntegritySHA384, IntegritySHA512]"

definition isValidDHGroup :: "DHGroup \<Rightarrow> bool" where
  "isValidDHGroup grp \<longleftrightarrow>
     grp \<in> set [DHGroupModp1024, DHGroupModp1536, DHGroupModp2048, DHGroupModp3072,
                    DHGroupModp4096, DHGroupModp8192, DHGroupECP256, DHGroupECP384,
                    DHGroupECP521]"

text \<open>The body of the loop of \<^verbatim>\<open>SecurityValidator.Validate\<close> for the tunnel at index \<open>i\<close>:
  the authentication rules, then the algorithms and the lifetime. The first rule that
  fails returns.\<close>

definition securityAuth :: "nat \<Rightarrow> TunnelConfig \<Rightarrow> security_error option" where
  "securityAuth i tunnel =
     (if Type (Auth tunnel) = AuthPSK then
        (if Secret (Auth tunnel) = [] then Some (PSKSecretRequired i (Name tunnel))
         else if length (Secret (Auth tunnel)) < 8 then Some (PSKSecretTooShort i (Name tunnel))
         else None)
      else if Type (Auth tunnel) = AuthCertificate then
        (if CertPath (Auth tunnel) = [] then Some (CertificatePathRequired i (Name tunnel))
         else if KeyPath (Auth tunnel) = [] then Some (PrivateKeyPathRequired i (Name tunnel))
         else None)
      else None)"

definition securityCrypto :: "nat \<Rightarrow> TunnelConfig \<Rightarrow> security_error option" where
  "securityCrypto i tunnel =
     (if \<not> isValidEncryption (Encryption (Crypto tunnel))
        then Some (InvalidEncryption i (Name tunnel) (Encryption (Crypto tunnel)))
      else if \<not> isValidIntegrity (Integrity (Crypto tunnel))
        then Some (InvalidIntegrity i (Name tunnel) (Integrity (Crypto tunnel)))
      else if \<not> isValidDHGroup (DHGroup (Crypto tunnel))
        then Some (InvalidDHGroup i (Name tunnel) (DHGroup (Crypto tunnel)))
      else if Lifetime (Crypto tunnel) = 0
        then Some (LifetimeUnspecified i (Name tunnel))
      else if Lifetime (Crypto tunnel) < 5 * Minute
        then Some (LifetimeTooShort i (Name tunnel))
      else if Lifetime (Crypto tunnel) > 24 * Hour
        then Some (LifetimeTooLong i (Name tunnel))
      else None)"

definition securityTunnel :: "nat \<Rightarrow> TunnelConfig \<Rightarrow> security_error option" where
  "securityTunnel i tunnel =
     (case securityAuth i tunnel of
        Some err \<Rightarrow> Some err
      | None \<Rightarrow> securityCrypto i tunnel)"

fun securityTunnels :: "nat \<Rightarrow> TunnelConfig list \<Rightarrow> security_error option" where
  "securityTunnels i [] = None"
| "securityTunnels i (tunnel # rest) =
     (case securityTunnel i tunnel of
        Some err \<Rightarrow> Some err
      | None \<Rightarrow> securityTunnels (Suc i) rest)"

definition SecurityValidator_Validate :: "Policy \<Rightarrow> security_error option" where
  "SecurityValidator_Validate policy = securityTunnels 0 (Tunnels policy)"

subsection \<open>PlatformCompatibilityValidator\<close>

text \<open>The checks of the AH and ESP+AH modes have empty bodies in the source.\<close>

fun platformTunnels :: "nat \<Rightarrow> TunnelConfig list \<Rightarrow> platform_error option" where
  "platformTunnels i [] = None"
| "platformTunnels i (tunnel # rest) =
     (if (Encryption (Crypto tunnel) = EncryptionAES128GCM
          \<or> Encryption (Crypto tunnel) = EncryptionAES256GCM)
         \<and> IKEVersion (Crypto tunnel) \<noteq> IKEv2
      then Some (GCMRequiresIKEv2 i (Name tunnel))
      else platformTunnels (Suc i) rest)"

definition PlatformCompatibilityValidator_Validate :: "Policy \<Rightarrow> platform_error option" where
  "PlatformCompatibilityValidator_Validate policy = platformTunnels 0 (Tunnels policy)"

subsection \<open>PolicyEngine\<close>

type_synonym PolicyValidator = "Policy \<Rightarrow> validator_error option"

record PolicyEngine =
  validators :: "PolicyValidator list"

definition NewPolicyEngine :: PolicyEngine where
  "NewPolicyEngine =
     \<lparr>validators =
        [\<lambda>policy. map_option Structural (BasicValidator_Validate policy),
         \<lambda>policy. map_option Security (SecurityValidator_Validate policy),
         \<lambda>policy. map_option PlatformCompatibility
                     (PlatformCompatibilityValidator_Validate policy)]\<rparr>"

fun runValidators :: "PolicyValidator list \<Rightarrow> Policy \<Rightarrow> validation_error option" where
  "runValidators [] policy = None"
| "runValidators (validator # rest) policy =
     (case validator policy of
        Some err \<Rightarrow> Some (PolicyValidationFailed err)
      | None \<Rightarrow> runValidators rest policy)"

definition Validate :: "PolicyEngine \<Rightarrow> Policy \<Rightarrow> validation_error option" where
  "Validate e policy = runValidators (validators e) policy"

text \<open>
  \<^verbatim>\<open>FilterPoliciesForPeer\<close>. The inner loop over the peer's tags appends the policy at
  the first tag equal to the target and leaves the tag loop; the loop over the targets
  goes on with the next target. A target equal to the peer's id or to \<^verbatim>\<open>*\<close> appends the
  policy and leaves the loop over the targets.
\<close>

fun tagsLoop :: "Policy \<Rightarrow> string \<Rightarrow> string list \<Rightarrow> Policy list \<Rightarrow> Policy list" where
  "tagsLoop policy target [] applicable = applicable"
| "tagsLoop policy target (tag # tags) applicable =
     (if target = tag then applicable @ [policy]
      else tagsLoop policy target tags applicable)"

fun targetsLoop :: "Policy \<Rightarrow> PeerInfo \<Rightarrow> string list \<Rightarrow> Policy list \<Rightarrow> Policy list" where
  "targetsLoop policy peer [] applicable = applicable"
| "targetsLoop policy peer (target # targets) applicable =
     (if target = PeerID peer \<or> target = ''*'' then applicable @ [policy]
      else targetsLoop policy peer targets (tagsLoop policy target (Tags peer) applicable))"

fun policiesLoop :: "Policy list \<Rightarrow> PeerInfo \<Rightarrow> Policy list \<Rightarrow> Policy list" where
  "policiesLoop [] peer applicable = applicable"
| "policiesLoop (policy # policies) peer applicable =
     (if \<not> Enabled policy then policiesLoop policies peer applicable
      else if length (AppliesTo policy) = 0
        then policiesLoop policies peer (applicable @ [policy])
      else policiesLoop policies peer (targetsLoop policy peer (AppliesTo policy) applicable))"

definition FilterPoliciesForPeer :: "Policy list \<Rightarrow> PeerInfo \<Rightarrow> Policy list" where
  "FilterPoliciesForPeer policies peer = policiesLoop policies peer []"

text \<open>
  \<^verbatim>\<open>MergeTunnels\<close>. The map is filled in the order of the list, each tunnel stored
  under its name whatever the map holds; no priority is read. The slice returned holds
  the map's values in the order in which Go's \<^verbatim>\<open>range\<close> visits the keys, which the
  language leaves open: that order is the argument \<open>keys\<close>.
\<close>

fun putTunnels :: "TunnelConfig list \<Rightarrow> (string \<rightharpoonup> TunnelConfig) \<Rightarrow> (string \<rightharpoonup> TunnelConfig)" where
  "putTunnels [] tunnelMap = tunnelMap"
| "putTunnels (tunnel # rest) tunnelMap = putTunnels rest (tunnelMap(Name tunnel \<mapsto> tunnel))"

fun mergeLoop :: "Policy list \<Rightarrow> (string \<rightharpoonup> TunnelConfig) \<Rightarrow> (string \<rightharpoonup> TunnelConfig)" where
  "mergeLoop [] tunnelMap = tunnelMap"
| "mergeLoop (policy # policies) tunnelMap =
     mergeLoop policies (putTunnels (Tunnels policy) tunnelMap)"


definition MergeTunnels :: "string list \<Rightarrow> Policy list \<Rightarrow> TunnelConfig list" where
  "MergeTunnels keys policies = List.map_filter (mergeLoop policies Map.empty) keys"

text \<open>\<^verbatim>\<open>DefaultPolicy\<close>, the policy template of the source; \<open>created\<close> and \<open>updated\<close>
  are its two readings of \<^verbatim>\<open>time.Now()\<close>.\<close>

definition DefaultPolicy :: "Time \<Rightarrow> Time \<Rightarrow> Policy" where
  "DefaultPolicy created updated =
     \<lparr>PolicyID = [], PolicyName = ''default-policy'', Description = [], PolicyVersion = 1,
      CreatedAt = created, UpdatedAt = updated, Enabled = True,
      Tunnels =
        [\<lparr>Name = ''example-tunnel'', Mode = ModeESPTunnel,
          LocalAddress = ''10.0.1.1'', RemoteAddress = ''10.0.2.1'',
          LocalID = [], RemoteID = [],
          Crypto = \<lparr>Encryption = EncryptionAES256, Integrity = IntegritySHA256,
                    DHGroup = DHGroupModp2048, IKEVersion = IKEv2, Lifetime = Hour\<rparr>,
          Auth = \<lparr>Type = AuthPSK, Secret = ''ChangeMe123!'', CertPath = [], KeyPath = [],
                  CACertPath = []\<rparr>,
          TrafficSelectors =
            [\<lparr>LocalSubnet = ''10.0.1.0/24'', RemoteSubnet = ''10.0.2.0/24'', Protocol = [],
              LocalPort = 0, RemotePort = 0\<rparr>],
          DPD = \<lparr>Delay = 30 * Second, Action = ''restart''\<rparr>,
          AutoStart = True, Mark = []\<rparr>],
      AppliesTo = [], Priority = 0\<rparr>"

section \<open>The backend contract and the agent (package agent)\<close>

text \<open>
  The backend (\<^verbatim>\<open>ipsec.IPsecManager\<close>) and the HTTP client are collaborators with a
  state of their own: \<open>'w\<close> is the state of the world outside the agent, and every
  call takes it and returns it changed. \<^verbatim>\<open>ListTunnels\<close> returns Go's pair of a slice and
  an error as it is: the interface lets a backend return tunnels together with an
  error, and \<^verbatim>\<open>applyPolicies\<close> goes on with the slice after it has logged the error. The
  status that \<^verbatim>\<open>GetTunnelStatus\<close> returns is read only when the error is \<^verbatim>\<open>nil\<close>, so that
  result is a sum. Only the methods the agent calls are fields.
\<close>

record 'w IPsecManager =
  CreateTunnel :: "TunnelConfig \<Rightarrow> 'w \<Rightarrow> error option \<times> 'w"
  DeleteTunnel :: "string \<Rightarrow> 'w \<Rightarrow> error option \<times> 'w"
  UpdateTunnel :: "TunnelConfig \<Rightarrow> 'w \<Rightarrow> error option \<times> 'w"
  StartTunnel :: "string \<Rightarrow> 'w \<Rightarrow> error option \<times> 'w"
  GetTunnelStatus :: "string \<Rightarrow> 'w \<Rightarrow> (error + TunnelStatus) \<times> 'w"
  ListTunnels :: "'w \<Rightarrow> (TunnelStatus list \<times> error option) \<times> 'w"

text \<open>
  The two requests of the agent, and what the HTTP layer answers: the request could
  not be built, the round trip failed, or a response came back. \<open>Decoded\<close> is what
  \<^verbatim>\<open>json.NewDecoder(resp.Body).Decode(&policies)\<close> yields on the body.
\<close>

datatype request = RegisterPeer PeerInfo | GetPolicies string

record response =
  StatusCode :: nat
  StatusLine :: string
  Body :: string
  Decoded :: "error + Policy list"

datatype http_outcome = NewRequestFailed error | DoFailed error | Reply response

type_synonym 'w httpClient = "request \<Rightarrow> 'w \<Rightarrow> http_outcome \<times> 'w"

text \<open>
  Every call the agent makes to a collaborator is recorded with its outcome, in the
  order of the calls: the record is what a mocked backend would observe.
\<close>

datatype call =
    ListCall
  | CreateCall TunnelConfig
  | UpdateCall TunnelConfig
  | DeleteCall string
  | GetStatusCall string
  | StartCall string
  | HttpCall request

datatype outcome =
    Done "error option"
  | Statuses "TunnelStatus list" "error option"
  | StatusOf "error + TunnelStatus"
  | Answer http_outcome

type_synonym event = "call \<times> outcome"

datatype agent_error =
    FailedToCreateRequest error
  | FailedToRegister error
  | RegistrationFailed string string
  | FailedToFetchPolicies error
  | FailedToFetchPoliciesStatus string
  | FailedToDecodePolicies error
  | FailedToApplyPolicies agent_error

text \<open>The agent's own state. The field \<^verbatim>\<open>id\<close> is \<open>agent_id\<close>; the handles (manager,
  HTTP client, mutex, channels) are the collaborators above.\<close>

record Agent =
  agent_id :: string
  serverURL :: string
  syncInterval :: Duration
  healthInterval :: Duration
  currentPolicies :: "Policy list"
  currentTunnels :: "string \<rightharpoonup> TunnelConfig"

text \<open>
  \<^verbatim>\<open>register\<close> returns early where \<^verbatim>\<open>json.Marshal\<close> fails as well; a \<^verbatim>\<open>PeerInfo\<close> holds
  strings, instants, a slice of strings and a map of strings only, which always
  marshal, so that return is no branch here.
\<close>

text \<open>What \<^verbatim>\<open>register\<close> reads from the host: \<^verbatim>\<open>os.Hostname()\<close>, \<^verbatim>\<open>runtime.GOOS\<close>,
  \<^verbatim>\<open>runtime.GOARCH\<close>, \<^verbatim>\<open>time.Now()\<close> and the configured \<^verbatim>\<open>peer.tags\<close>.\<close>

record Host =
  hostname :: string
  GOOS :: string
  GOARCH :: string
  now :: Time
  peer_tags :: "string list"

definition getLocalIP :: "Agent \<Rightarrow> string" where
  "getLocalIP a = ''127.0.0.1''"

definition register :: "'w httpClient \<Rightarrow> Host \<Rightarrow> Agent \<Rightarrow> 'w \<Rightarrow> agent_error option \<times> event list \<times> 'w" where
  "register http host a w =
     (let peerInfo =
            \<lparr>PeerID = agent_id a, Hostname = hostname host, Platform = GOOS host,
             IPAddress = getLocalIP a, PeerVersion = ''0.1.0'', Tags = peer_tags host,
             LastSeenAt = now host, RegisteredAt = now host,
             Metadata = [''arch'' \<mapsto> GOARCH host], Status = PeerStatusOnline\<rparr>
      in case http (RegisterPeer peerInfo) w of
           (res, w') \<Rightarrow>
             ((case res of
                 NewRequestFailed err \<Rightarrow> Some (FailedToCreateRequest err)
               | DoFailed err \<Rightarrow> Some (FailedToRegister err)
               | Reply resp \<Rightarrow>
                   if StatusCode resp \<noteq> 200 \<and> StatusCode resp \<noteq> 201
                   then Some (RegistrationFailed (StatusLine resp) (Body resp))
                   else None),
              [(HttpCall (RegisterPeer peerInfo), Answer res)], w'))"

subsection \<open>applyPolicies\<close>

text \<open>The first loop: the tunnels of every enabled policy, stored under their names
  in the order of the list. Nothing but \<^verbatim>\<open>Enabled\<close> is read of a policy.\<close>

fun desiredLoop :: "Policy list \<Rightarrow> (string \<rightharpoonup> TunnelConfig) \<Rightarrow> (string \<rightharpoonup> TunnelConfig)" where
  "desiredLoop [] desiredTunnels = desiredTunnels"
| "desiredLoop (pol # policies) desiredTunnels =
     (if \<not> Enabled pol then desiredLoop policies desiredTunnels
      else desiredLoop policies (putTunnels (Tunnels pol) desiredTunnels))"

fun namesLoop :: "TunnelStatus list \<Rightarrow> (string \<rightharpoonup> bool) \<Rightarrow> (string \<rightharpoonup> bool)" where
  "namesLoop [] currentNames = currentNames"
| "namesLoop (t # ts) currentNames = namesLoop ts (currentNames(StatusName t \<mapsto> True))"

text \<open>Reading a \<^verbatim>\<open>map[string]bool\<close> at a missing key gives \<^verbatim>\<open>false\<close>.\<close>

definition lookupBool :: "(string \<rightharpoonup> bool) \<Rightarrow> string \<Rightarrow> bool" where
  "lookupBool m k = (case m k of Some b \<Rightarrow> b | None \<Rightarrow> False)"

text \<open>
  The loops over a map run over its keys in the order \<^verbatim>\<open>range\<close> picks, an argument
  here (\<open>range_order\<close> says that a list is such an order). A failed call is logged
  and the loop goes on with the next key, as after a call that succeeded.
\<close>

fun createOrUpdateLoop ::
  "'w IPsecManager \<Rightarrow> (string \<rightharpoonup> TunnelConfig) \<Rightarrow> (string \<rightharpoonup> bool) \<Rightarrow> string list \<Rightarrow> 'w
   \<Rightarrow> event list \<times> 'w" where
  "createOrUpdateLoop mgr desiredTunnels currentNames [] w = ([], w)"
| "createOrUpdateLoop mgr desiredTunnels currentNames (name # names) w =
     (case desiredTunnels name of
        None \<Rightarrow> createOrUpdateLoop mgr desiredTunnels currentNames names w
      | Some tunnel \<Rightarrow>
          if lookupBool currentNames name then
            (case UpdateTunnel mgr tunnel w of
               (err, w') \<Rightarrow>
                 (case createOrUpdateLoop mgr desiredTunnels currentNames names w' of
                    (evs, w'') \<Rightarrow> ((UpdateCall tunnel, Done err) # evs, w'')))
          else
            (case CreateTunnel mgr tunnel w of
               (err, w') \<Rightarrow>
                 (case createOrUpdateLoop mgr desiredTunnels currentNames names w' of
                    (evs, w'') \<Rightarrow> ((CreateCall tunnel, Done err) # evs, w''))))"

fun deleteLoop ::
  "'w IPsecManager \<Rightarrow> (string \<rightharpoonup> TunnelConfig) \<Rightarrow> string list \<Rightarrow> 'w \<Rightarrow> event list \<times> 'w" where
  "deleteLoop mgr desiredTunnels [] w = ([], w)"
| "deleteLoop mgr desiredTunnels (name # names) w =
     (if desiredTunnels name = None then
        (case DeleteTunnel mgr name w of
           (err, w') \<Rightarrow>
             (case deleteLoop mgr desiredTunnels names w' of
                (evs, w'') \<Rightarrow> ((DeleteCall name, Done err) # evs, w'')))
      else deleteLoop mgr desiredTunnels names w)"

text \<open>\<open>desiredKeys\<close> and \<open>currentKeys\<close> are the orders in which the two loops visit
  \<^verbatim>\<open>desiredTunnels\<close> and \<^verbatim>\<open>currentNames\<close>. An error of \<^verbatim>\<open>ListTunnels\<close> is logged and
  nothing else: the names are taken from the slice that came with it, whatever it
  holds.\<close>

definition applyPolicies ::
  "'w IPsecManager \<Rightarrow> string list \<Rightarrow> string list \<Rightarrow> Agent \<Rightarrow> Policy list \<Rightarrow> 'w
   \<Rightarrow> (agent_error option \<times> Agent) \<times> event list \<times> 'w" where
  "applyPolicies mgr desiredKeys currentKeys a policies w =
     (let desiredTunnels = desiredLoop policies Map.empty in
      case ListTunnels mgr w of
        ((tunnels, err), w1) \<Rightarrow>
          let currentNames = namesLoop tunnels Map.empty
          in case createOrUpdateLoop mgr desiredTunnels currentNames desiredKeys w1 of
               (evs1, w2) \<Rightarrow>
                 (case deleteLoop mgr desiredTunnels currentKeys w2 of
                    (evs2, w3) \<Rightarrow>
                      ((None, a\<lparr>currentTunnels := desiredTunnels\<rparr>),
                       (ListCall, Statuses tunnels err) # evs1 @ evs2, w3)))"

subsection \<open>syncPolicies, Start and the sync loop\<close>

definition syncPolicies ::
  "'w IPsecManager \<Rightarrow> 'w httpClient \<Rightarrow> string list \<Rightarrow> string list \<Rightarrow> Agent \<Rightarrow> 'w
   \<Rightarrow> (agent_error option \<times> Agent) \<times> event list \<times> 'w" where
  "syncPolicies mgr http desiredKeys currentKeys a w =
     (case http (GetPolicies (agent_id a)) w of
        (res, w1) \<Rightarrow>
          let ev = (HttpCall (GetPolicies (agent_id a)), Answer res) in
          (case res of
             NewRequestFailed err \<Rightarrow> ((Some (FailedToCreateRequest err), a), [ev], w1)
           | DoFailed err \<Rightarrow> ((Some (FailedToFetchPolicies err), a), [ev], w1)
           | Reply resp \<Rightarrow>
               if StatusCode resp \<noteq> 200
               then ((Some (FailedToFetchPoliciesStatus (StatusLine resp)), a), [ev], w1)
               else
                 (case Decoded resp of
                    Inl err \<Rightarrow> ((Some (FailedToDecodePolicies err), a), [ev], w1)
                  | Inr policies \<Rightarrow>
                      (case applyPolicies mgr desiredKeys currentKeys a policies w1 of
                         ((Some err, a'), evs, w2) \<Rightarrow>
                           ((Some (FailedToApplyPolicies err), a'), ev # evs, w2)
                       | ((None, a'), evs, w2) \<Rightarrow>
                           ((None, a'\<lparr>currentPolicies := policies\<rparr>), ev # evs, w2)))))"

text \<open>
  \<^verbatim>\<open>Start\<close>: the registration and the first sync, each with its error logged and
  dropped; then the three loops are launched and \<^verbatim>\<open>nil\<close> is returned. The loops run
  on their own; what one of them does is a function of the cases its \<^verbatim>\<open>select\<close>
  takes.
\<close>

definition Start ::
  "'w IPsecManager \<Rightarrow> 'w httpClient \<Rightarrow> Host \<Rightarrow> string list \<Rightarrow> string list \<Rightarrow> Agent \<Rightarrow> 'w
   \<Rightarrow> (agent_error option \<times> Agent) \<times> event list \<times> 'w" where
  "Start mgr http host desiredKeys currentKeys a w =
     (case register http host a w of
        (regErr, evs1, w1) \<Rightarrow>
          (case syncPolicies mgr http desiredKeys currentKeys a w1 of
             ((syncErr, a'), evs2, w2) \<Rightarrow> ((None, a'), evs1 @ evs2, w2)))"

text \<open>A case of the loop's \<^verbatim>\<open>select\<close>: a tick (with the orders in which the pass of
  that tick visits its two maps), the stop channel, or the context's end.\<close>

datatype select_case = TickerC "string list" "string list" | StopCh | CtxDone

fun policySyncLoop ::
  "'w IPsecManager \<Rightarrow> 'w httpClient \<Rightarrow> select_case list \<Rightarrow> Agent \<Rightarrow> 'w
   \<Rightarrow> Agent \<times> event list \<times> 'w" where
  "policySyncLoop mgr http [] a w = (a, [], w)"
| "policySyncLoop mgr http (TickerC desiredKeys currentKeys # cases) a w =
     (case syncPolicies mgr http desiredKeys currentKeys a w of
        ((err, a'), evs, w') \<Rightarrow>
          (case policySyncLoop mgr http cases a' w' of
             (a'', evs', w'') \<Rightarrow> (a'', evs @ evs', w'')))"
| "policySyncLoop mgr http (StopCh # cases) a w = (a, [], w)"
| "policySyncLoop mgr http (CtxDone # cases) a w = (a, [], w)"

subsection \<open>watchdogCheck\<close>




section \<open>The order of the specification, and values for the closed instances\<close>

text \<open>The merge order of the specification: descending priority, ties broken by
  name (the order of the policy store's listing, \<^verbatim>\<open>ORDER BY priority DESC, name ASC\<close>).\<close>

text \<open>Applicability as the specification words it: the policy is enabled, and its
  targets are empty or hold the peer's id, \<^verbatim>\<open>*\<close> or a tag the peer carries.\<close>

definition appliesToPeer :: "Policy \<Rightarrow> PeerInfo \<Rightarrow> bool" where
  "appliesToPeer policy peer \<longleftrightarrow>
     Enabled policy \<and>
     (AppliesTo policy = [] \<or>
      (\<exists>target\<in>set (AppliesTo policy).
         target = PeerID peer \<or> target = ''*'' \<or> target \<in> set (Tags peer)))"

text \<open>The characters of a string as a reader counts them: the code points of its
  UTF-8 encoding, which are its bytes other than the continuation bytes \<^verbatim>\<open>10xxxxxx\<close>.\<close>

definition utf8Characters :: "string \<Rightarrow> nat" where
  "utf8Characters s =
     length (filter (\<lambda>c. \<not> (128 \<le> (of_char c :: nat) \<and> (of_char c :: nat) < 192)) s)"

definition priorityOrder :: "Policy \<Rightarrow> Policy \<Rightarrow> bool" where
  "priorityOrder p q \<longleftrightarrow>
     Priority q < Priority p \<or> (Priority p = Priority q \<and> PolicyName p \<le> PolicyName q)"

text \<open>The tunnel of \<^verbatim>\<open>DefaultPolicy\<close>, and policies, peers, backends and servers built
  around it for the instances below.\<close>

definition exampleTunnel :: TunnelConfig where
  "exampleTunnel = hd (Tunnels (DefaultPolicy 0 0))"

definition vpn1 :: "EncryptionAlgorithm \<Rightarrow> TunnelConfig" where
  "vpn1 enc =
     exampleTunnel\<lparr>Name := ''vpn1'', Crypto := (Crypto exampleTunnel)\<lparr>Encryption := enc\<rparr>\<rparr>"


definition pskTunnel :: "string \<Rightarrow> string \<Rightarrow> TunnelConfig" where
  "pskTunnel name secret =
     exampleTunnel\<lparr>Name := name, Auth := (Auth exampleTunnel)\<lparr>Secret := secret\<rparr>\<rparr>"

text \<open>The UTF-8 bytes of four letters e with an acute accent.\<close>

definition fourAccents :: string where
  "fourAccents = [CHR 0xC3, CHR 0xA9, CHR 0xC3, CHR 0xA9, CHR 0xC3, CHR 0xA9, CHR 0xC3, CHR 0xA9]"

definition policyWith :: "string \<Rightarrow> int \<Rightarrow> string list \<Rightarrow> TunnelConfig list \<Rightarrow> Policy" where
  "policyWith name prio targets tunnels =
     (DefaultPolicy 0 0)\<lparr>PolicyName := name, Priority := prio, AppliesTo := targets,
                       Tunnels := tunnels\<rparr>"

definition peerWith :: "string \<Rightarrow> string list \<Rightarrow> PeerInfo" where
  "peerWith ident tags =
     \<lparr>PeerID = ident, Hostname = [], Platform = ''linux'', IPAddress = [], PeerVersion = [],
      Tags = tags, LastSeenAt = 0, RegisteredAt = 0, Metadata = Map.empty,
      Status = PeerStatusOnline\<rparr>"

definition statusOf :: "string \<Rightarrow> TunnelState \<Rightarrow> TunnelStatus" where
  "statusOf name st =
     \<lparr>StatusName = name, State = st, StatusLocalAddress = [], StatusRemoteAddress = [],
      EstablishedAt = 0, LastRekeyAt = 0, BytesIn = 0, BytesOut = 0, PacketsIn = 0,
      PacketsOut = 0, Uptime = 0, ErrorMessage = [], CurrentCrypto = Crypto exampleTunnel\<rparr>"

text \<open>A backend whose state is the list of the names it holds. Every call that names
  a tunnel of \<open>broken\<close> fails; \<^verbatim>\<open>ListTunnels\<close> fails when \<open>listFails\<close>, returning \<^verbatim>\<open>nil\<close>
  with the error as the backends of the repository do; every tunnel it holds is
  reported in the state \<open>st\<close>.\<close>

definition mockManager :: "bool \<Rightarrow> string list \<Rightarrow> TunnelState \<Rightarrow> (string list) IPsecManager" where
  "mockManager listFails broken st =
     \<lparr>CreateTunnel = (\<lambda>config w.
        if Name config \<in> set broken then (Some ''create failed'', w)
        else (None, w @ [Name config])),
      DeleteTunnel = (\<lambda>name w.
        if name \<in> set broken then (Some ''delete failed'', w)
        else (None, removeAll name w)),
      UpdateTunnel = (\<lambda>config w.
        if Name config \<in> set broken then (Some ''update failed'', w) else (None, w)),
      StartTunnel = (\<lambda>name w.
        if name \<in> set broken then (Some ''start failed'', w) else (None, w)),
      GetTunnelStatus = (\<lambda>name w.
        if name \<in> set w then (Inr (statusOf name st), w)
        else (Inl ''no such tunnel'', w)),
      ListTunnels = (\<lambda>w.
        if listFails then (([], Some ''list failed''), w)
        else ((map (\<lambda>name. statusOf name st) w, None), w))\<rparr>"


text \<open>A server that answers every registration with \<open>reg\<close> and every request for
  the policies with \<open>pol\<close>.\<close>

definition mockHttp :: "http_outcome \<Rightarrow> http_outcome \<Rightarrow> 'w httpClient" where
  "mockHttp reg pol req w =
     (case req of RegisterPeer peer \<Rightarrow> (reg, w) | GetPolicies peerID \<Rightarrow> (pol, w))"

definition policiesReply :: "Policy list \<Rightarrow> http_outcome" where
  "policiesReply policies =
     Reply \<lparr>StatusCode = 200, StatusLine = ''200 OK'', Body = [], Decoded = Inr policies\<rparr>"

definition exampleHost :: Host where
  "exampleHost =
     \<lparr>hostname = ''node1'', GOOS = ''linux'', GOARCH = ''amd64'', now = 0, peer_tags = [''web'']\<rparr>"

definition agentWith :: "string \<Rightarrow> (string \<rightharpoonup> TunnelConfig) \<Rightarrow> Agent" where
  "agentWith peerID tunnels =
     \<lparr>agent_id = peerID, serverURL = ''http://server:8080'', syncInterval = 60 * Second,
      healthInterval = 10 * Second, currentPolicies = [], currentTunnels = tunnels\<rparr>"

section \<open>The policy engine\<close>

subsection \<open>FilterPoliciesForPeer appends; nothing is reordered\<close>

lemma tagsLoop_acc: "tagsLoop p t tags acc = acc @ tagsLoop p t tags []"
  by (induction tags) auto

lemma set_tagsLoop: "set (tagsLoop p t tags []) \<subseteq> {p}"
  by (induction tags) auto

lemma targetsLoop_acc: "targetsLoop p peer ts acc = acc @ targetsLoop p peer ts []"
proof (induction ts arbitrary: acc)
  case Nil
  show ?case by simp
next
  case (Cons t ts)
  show ?case
  proof (cases "t = PeerID peer \<or> t = ''*''")
    case True
    then show ?thesis by auto
  next
    case False
    have "targetsLoop p peer (t # ts) acc = targetsLoop p peer ts (tagsLoop p t (Tags peer) acc)"
      using False by simp
    also have "\<dots> = tagsLoop p t (Tags peer) acc @ targetsLoop p peer ts []"
      by (rule Cons.IH)
    also have "\<dots> = acc @ tagsLoop p t (Tags peer) [] @ targetsLoop p peer ts []"
      using tagsLoop_acc [of p t "Tags peer" acc] by simp
    also have "tagsLoop p t (Tags peer) [] @ targetsLoop p peer ts []
                 = targetsLoop p peer ts (tagsLoop p t (Tags peer) [])"
      by (rule Cons.IH [symmetric])
    also have "\<dots> = targetsLoop p peer (t # ts) []"
      using False by simp
    finally show ?thesis .
  qed
qed

lemma set_targetsLoop: "set (targetsLoop p peer ts []) \<subseteq> {p}"
proof (induction ts)
  case Nil
  show ?case by simp
next
  case (Cons t ts)
  show ?case
  proof (cases "t = PeerID peer \<or> t = ''*''")
    case True
    then show ?thesis by auto
  next
    case False
    then have "targetsLoop p peer (t # ts) []
                 = tagsLoop p t (Tags peer) [] @ targetsLoop p peer ts []"
      using targetsLoop_acc [of p peer ts "tagsLoop p t (Tags peer) []"] by simp
    then show ?thesis
      using Cons.IH set_tagsLoop [of p t "Tags peer"] by auto
  qed
qed

lemma policiesLoop_acc: "policiesLoop ps peer acc = acc @ policiesLoop ps peer []"
proof (induction ps arbitrary: acc)
  case Nil
  show ?case by simp
next
  case (Cons p ps)
  have step: "policiesLoop (p # ps) peer acc = policiesLoop ps peer (policiesLoop [p] peer acc)" for acc
    by simp
  have one: "policiesLoop [p] peer acc = acc @ policiesLoop [p] peer []"
    using targetsLoop_acc [of p peer "AppliesTo p" acc] by simp
  have "policiesLoop (p # ps) peer acc = policiesLoop [p] peer acc @ policiesLoop ps peer []"
    unfolding step by (rule Cons.IH)
  also have "\<dots> = acc @ policiesLoop [p] peer [] @ policiesLoop ps peer []"
    using one by simp
  also have "policiesLoop [p] peer [] @ policiesLoop ps peer [] = policiesLoop (p # ps) peer []"
    unfolding step by (rule Cons.IH [symmetric])
  finally show ?case .
qed

lemma policiesLoop_Cons:
  "policiesLoop (p # ps) peer [] = policiesLoop [p] peer [] @ policiesLoop ps peer []"
proof -
  have "policiesLoop (p # ps) peer [] = policiesLoop ps peer (policiesLoop [p] peer [])"
    by simp
  then show ?thesis
    using policiesLoop_acc [of ps peer "policiesLoop [p] peer []"] by simp
qed

lemma set_policiesLoop_single: "set (policiesLoop [p] peer []) \<subseteq> {p}"
  using set_targetsLoop [of p peer "AppliesTo p"] by auto

lemma set_policiesLoop: "set (policiesLoop ps peer []) \<subseteq> set ps"
proof (induction ps)
  case Nil
  show ?case by simp
next
  case (Cons p ps)
  show ?case
    unfolding policiesLoop_Cons [of p ps]
    using Cons.IH set_policiesLoop_single [of p peer] by auto
qed

lemma set_tagsLoop_iff: "set (tagsLoop p t tags []) = (if t \<in> set tags then {p} else {})"
  by (induction tags) auto

lemma set_targetsLoop_iff:
  "set (targetsLoop p peer ts []) =
     (if \<exists>t\<in>set ts. t = PeerID peer \<or> t = ''*'' \<or> t \<in> set (Tags peer) then {p} else {})"
proof (induction ts)
  case Nil
  show ?case by simp
next
  case (Cons t ts)
  show ?case
  proof (cases "t = PeerID peer \<or> t = ''*''")
    case True
    then show ?thesis by auto
  next
    case False
    then have "targetsLoop p peer (t # ts) []
                 = tagsLoop p t (Tags peer) [] @ targetsLoop p peer ts []"
      using targetsLoop_acc [of p peer ts "tagsLoop p t (Tags peer) []"] by simp
    then show ?thesis
      using False Cons.IH by (simp add: set_tagsLoop_iff)
  qed
qed

text \<open>As a set, the result is what the specification says: the enabled policies whose
  targets are empty or hold the peer's id, \<^verbatim>\<open>*\<close> or one of the peer's tags.\<close>

lemma set_FilterPoliciesForPeer:
  "set (FilterPoliciesForPeer policies peer) =
     {p \<in> set policies. Enabled p \<and>
        (AppliesTo p = [] \<or>
         (\<exists>t\<in>set (AppliesTo p). t = PeerID peer \<or> t = ''*'' \<or> t \<in> set (Tags peer)))}"
  unfolding FilterPoliciesForPeer_def
proof (induction policies)
  case Nil
  show ?case by simp
next
  case (Cons p ps)
  have single: "set (policiesLoop [p] peer []) =
      (if Enabled p \<and>
          (AppliesTo p = [] \<or>
           (\<exists>t\<in>set (AppliesTo p). t = PeerID peer \<or> t = ''*'' \<or> t \<in> set (Tags peer)))
       then {p} else {})"
    using set_targetsLoop_iff [of p peer "AppliesTo p"] by auto
  show ?case
    unfolding policiesLoop_Cons [of p ps] set_append single Cons.IH by auto
qed

lemma sorted_wrt_all: "(\<And>x y. x \<in> set xs \<Longrightarrow> y \<in> set xs \<Longrightarrow> P x y) \<Longrightarrow> sorted_wrt P xs"
  by (induction xs) auto

lemma priorityOrder_refl: "priorityOrder p p"
  by (simp add: priorityOrder_def)


lemma sorted_FilterPoliciesForPeer:
  "sorted_wrt priorityOrder policies \<Longrightarrow>
   sorted_wrt priorityOrder (FilterPoliciesForPeer policies peer)"
  unfolding FilterPoliciesForPeer_def
proof (induction policies)
  case Nil
  show ?case by simp
next
  case (Cons p ps)
  have single: "sorted_wrt priorityOrder (policiesLoop [p] peer [])"
  proof (rule sorted_wrt_all)
    fix x y
    assume "x \<in> set (policiesLoop [p] peer [])" and "y \<in> set (policiesLoop [p] peer [])"
    then have "x = p" and "y = p"
      using set_policiesLoop_single [of p peer] by blast+
    then show "priorityOrder x y"
      by (simp add: priorityOrder_refl)
  qed
  have rest: "sorted_wrt priorityOrder (policiesLoop ps peer [])"
    using Cons by simp
  have cross: "priorityOrder x y"
    if "x \<in> set (policiesLoop [p] peer [])" and "y \<in> set (policiesLoop ps peer [])" for x y
  proof -
    have "x = p" using that(1) set_policiesLoop_single [of p peer] by blast
    moreover have "y \<in> set ps" using that(2) set_policiesLoop [of ps peer] by blast
    ultimately show ?thesis using Cons.prems by auto
  qed
  show ?case
    unfolding policiesLoop_Cons [of p ps]
    using single rest cross by (simp add: sorted_wrt_append)
qed


lemma FilterPoliciesForPeer_concat:
  "FilterPoliciesForPeer policies peer
     = concat (map (\<lambda>p. FilterPoliciesForPeer [p] peer) policies)"
  unfolding FilterPoliciesForPeer_def
proof (induction policies)
  case Nil
  show ?case by simp
next
  case (Cons p ps)
  show ?case
    unfolding policiesLoop_Cons [of p ps] Cons.IH by simp
qed

lemma replicate_of_singleton: "set xs \<subseteq> {x} \<Longrightarrow> xs = replicate (length xs) x"
proof -
  assume "set xs \<subseteq> {x}"
  then have "\<forall>y\<in>set xs. y = x"
    by blast
  then have "replicate (length xs) x = xs"
    by (rule replicate_length_same)
  then show ?thesis
    by (rule sym)
qed

lemma FilterPoliciesForPeer_single:
  "FilterPoliciesForPeer [p] peer = replicate (length (FilterPoliciesForPeer [p] peer)) p"
  "0 < length (FilterPoliciesForPeer [p] peer) \<longleftrightarrow> appliesToPeer p peer"
proof -
  show "FilterPoliciesForPeer [p] peer = replicate (length (FilterPoliciesForPeer [p] peer)) p"
    unfolding FilterPoliciesForPeer_def
    by (rule replicate_of_singleton) (rule set_policiesLoop_single)
  have "set (FilterPoliciesForPeer [p] peer) = (if appliesToPeer p peer then {p} else {})"
    unfolding set_FilterPoliciesForPeer appliesToPeer_def by auto
  then have "FilterPoliciesForPeer [p] peer \<noteq> [] \<longleftrightarrow> appliesToPeer p peer"
    by (cases "appliesToPeer p peer") auto
  then show "0 < length (FilterPoliciesForPeer [p] peer) \<longleftrightarrow> appliesToPeer p peer"
    by simp
qed

text \<open>
  Claim C4, as amended. \<^verbatim>\<open>FilterPoliciesForPeer\<close> does not sort: its result is its input
  list with every policy that does not apply to the peer left out and every policy
  that applies kept in its place (one or more times). So the result is ordered by
  descending priority, ties broken by name, whenever the input list is so ordered.
\<close>

theorem FilterPoliciesForPeer_keeps_priority_order:
  "(\<exists>n. (\<forall>p. 0 < n p \<longleftrightarrow> appliesToPeer p peer)
        \<and> FilterPoliciesForPeer policies peer = concat (map (\<lambda>p. replicate (n p) p) policies))
   \<and> (sorted_wrt priorityOrder policies \<longrightarrow>
        sorted_wrt priorityOrder (FilterPoliciesForPeer policies peer))"
proof (intro conjI impI)
  let ?n = "\<lambda>p. length (FilterPoliciesForPeer [p] peer)"
  have counts: "\<forall>p. 0 < ?n p \<longleftrightarrow> appliesToPeer p peer"
    by (intro allI) (rule FilterPoliciesForPeer_single(2))
  have "FilterPoliciesForPeer policies peer
          = concat (map (\<lambda>p. FilterPoliciesForPeer [p] peer) policies)"
    by (rule FilterPoliciesForPeer_concat)
  also have "\<dots> = concat (map (\<lambda>p. replicate (?n p) p) policies)"
  proof -
    have "(\<lambda>p. FilterPoliciesForPeer [p] peer) = (\<lambda>p. replicate (?n p) p)"
      by (rule ext) (rule FilterPoliciesForPeer_single(1))
    then show ?thesis
      by (rule arg_cong [of _ _ "\<lambda>f. concat (map f policies)"])
  qed
  finally have result: "FilterPoliciesForPeer policies peer
                  = concat (map (\<lambda>p. replicate (?n p) p) policies)" .
  show "\<exists>n. (\<forall>p. 0 < n p \<longleftrightarrow> appliesToPeer p peer)
        \<and> FilterPoliciesForPeer policies peer = concat (map (\<lambda>p. replicate (n p) p) policies)"
    by (rule exI [of _ ?n]) (rule conjI [OF counts result])
next
  assume "sorted_wrt priorityOrder policies"
  then show "sorted_wrt priorityOrder (FilterPoliciesForPeer policies peer)"
    by (rule sorted_FilterPoliciesForPeer)
qed

text \<open>An instance: an ordered list of two policies that both apply to the peer.\<close>

theorem FilterPoliciesForPeer_keeps_priority_order_witness:
  "sorted_wrt priorityOrder [policyWith ''hi'' 100 [] [exampleTunnel], policyWith ''lo'' 10 [''web''] [exampleTunnel]]
   \<and> FilterPoliciesForPeer [policyWith ''hi'' 100 [] [exampleTunnel], policyWith ''lo'' 10 [''web''] [exampleTunnel]] (peerWith ''n1'' [''web''])
       = [policyWith ''hi'' 100 [] [exampleTunnel], policyWith ''lo'' 10 [''web''] [exampleTunnel]]
   \<and> sorted_wrt priorityOrder
       (FilterPoliciesForPeer [policyWith ''hi'' 100 [] [exampleTunnel], policyWith ''lo'' 10 [''web''] [exampleTunnel]] (peerWith ''n1'' [''web'']))"
proof -
  have s: "sorted_wrt priorityOrder [policyWith ''hi'' 100 [] [exampleTunnel], policyWith ''lo'' 10 [''web''] [exampleTunnel]]"
    by (simp add: priorityOrder_def policyWith_def)
  have e: "FilterPoliciesForPeer [policyWith ''hi'' 100 [] [exampleTunnel], policyWith ''lo'' 10 [''web''] [exampleTunnel]] (peerWith ''n1'' [''web''])
       = [policyWith ''hi'' 100 [] [exampleTunnel], policyWith ''lo'' 10 [''web''] [exampleTunnel]]"
    by (simp add: FilterPoliciesForPeer_def policyWith_def peerWith_def DefaultPolicy_def)
  have r: "sorted_wrt priorityOrder
       (FilterPoliciesForPeer [policyWith ''hi'' 100 [] [exampleTunnel], policyWith ''lo'' 10 [''web''] [exampleTunnel]] (peerWith ''n1'' [''web'']))"
    using mp [OF conjunct2 [OF FilterPoliciesForPeer_keeps_priority_order] s] .
  show ?thesis
    by (intro conjI s e r)
qed

text \<open>
  Claim C4 as stated fails: two policies that apply to every peer, listed with the
  lower priority first, come back in that order.
\<close>

theorem FilterPoliciesForPeer_unsorted_counterexample:
  "FilterPoliciesForPeer [policyWith ''lo'' 10 [] [exampleTunnel], policyWith ''hi'' 100 [] [exampleTunnel]] (peerWith ''n1'' [])
     = [policyWith ''lo'' 10 [] [exampleTunnel], policyWith ''hi'' 100 [] [exampleTunnel]]
   \<and> Priority (policyWith ''lo'' 10 [] [exampleTunnel]) < Priority (policyWith ''hi'' 100 [] [exampleTunnel])
   \<and> \<not> sorted_wrt priorityOrder
         (FilterPoliciesForPeer [policyWith ''lo'' 10 [] [exampleTunnel], policyWith ''hi'' 100 [] [exampleTunnel]] (peerWith ''n1'' []))"
  by (simp add: FilterPoliciesForPeer_def policyWith_def peerWith_def DefaultPolicy_def priorityOrder_def)

text \<open>
  Claim C3 (the code departs from it). A policy with the targets \<^verbatim>\<open>web\<close> and \<^verbatim>\<open>db\<close>,
  filtered for a peer that carries both tags, is returned twice: the \<^verbatim>\<open>break\<close> after
  a tag matched leaves the loop over the tags only, and the next target appends the
  policy again.
\<close>

theorem FilterPoliciesForPeer_repeats_policy:
  "FilterPoliciesForPeer [policyWith ''p'' 0 [''web'', ''db''] [exampleTunnel]] (peerWith ''n1'' [''web'', ''db''])
     = [policyWith ''p'' 0 [''web'', ''db''] [exampleTunnel], policyWith ''p'' 0 [''web'', ''db''] [exampleTunnel]]"
  by (simp add: FilterPoliciesForPeer_def policyWith_def peerWith_def DefaultPolicy_def)

text \<open>
  Claim C1 (the code departs from it). \<^verbatim>\<open>MergeTunnels\<close> reads no priority: of two
  policies that define the tunnel \<^verbatim>\<open>vpn1\<close>, the definition of the one listed last is
  returned. Listed in descending priority, the policy of priority 10 overrides the one
  of priority 100; listed the other way round, the result is the other definition.
\<close>

theorem MergeTunnels_last_listed_wins:
  "MergeTunnels [''vpn1'']
     [policyWith ''hi'' 100 [] [vpn1 EncryptionAES256], policyWith ''lo'' 10 [] [vpn1 EncryptionAES128]]
     = [vpn1 EncryptionAES128]
   \<and> MergeTunnels [''vpn1'']
     [policyWith ''lo'' 10 [] [vpn1 EncryptionAES128], policyWith ''hi'' 100 [] [vpn1 EncryptionAES256]]
     = [vpn1 EncryptionAES256]
   \<and> vpn1 EncryptionAES128 \<noteq> vpn1 EncryptionAES256"
  by (simp add: MergeTunnels_def policyWith_def vpn1_def List.map_filter_simps
      EncryptionAES128_def EncryptionAES256_def exampleTunnel_def DefaultPolicy_def)

subsection \<open>Validate: three rule groups, the first violation returned\<close>

lemma Validate_in_order:
  "Validate NewPolicyEngine policy =
     (case BasicValidator_Validate policy of
        Some err \<Rightarrow> Some (PolicyValidationFailed (Structural err))
      | None \<Rightarrow>
          (case SecurityValidator_Validate policy of
             Some err \<Rightarrow> Some (PolicyValidationFailed (Security err))
           | None \<Rightarrow>
               (case PlatformCompatibilityValidator_Validate policy of
                  Some err \<Rightarrow> Some (PolicyValidationFailed (PlatformCompatibility err))
                | None \<Rightarrow> None)))"
  by (simp add: Validate_def NewPolicyEngine_def split: option.splits)

lemma securityTunnel_short_PSK:
  "Type (Auth tunnel) = AuthPSK \<Longrightarrow> length (Secret (Auth tunnel)) < 8 \<Longrightarrow>
   securityTunnel i tunnel =
     Some (if Secret (Auth tunnel) = [] then PSKSecretRequired i (Name tunnel)
           else PSKSecretTooShort i (Name tunnel))"
  by (simp add: securityTunnel_def securityAuth_def)

lemma securityTunnel_index: "securityTunnel i tunnel = None \<Longrightarrow> securityTunnel j tunnel = None"
  by (simp add: securityTunnel_def securityAuth_def securityCrypto_def
      split: if_splits option.splits)

lemma securityTunnels_first:
  "i < length ts \<Longrightarrow> (\<forall>j<i. securityTunnel j (ts ! j) = None) \<Longrightarrow>
   securityTunnel (k + i) (ts ! i) = Some err \<Longrightarrow> securityTunnels k ts = Some err"
proof (induction ts arbitrary: i k)
  case Nil
  then show ?case by simp
next
  case (Cons t ts)
  show ?case
  proof (cases i)
    case 0
    then show ?thesis using Cons.prems by simp
  next
    case (Suc i')
    have head: "securityTunnel k t = None"
      using Cons.prems(2) Suc securityTunnel_index [of 0 t k] by auto
    have earlier: "\<forall>j<i'. securityTunnel j (ts ! j) = None"
    proof (intro allI impI)
      fix j assume "j < i'"
      then have "securityTunnel (Suc j) ((t # ts) ! Suc j) = None"
        using Cons.prems(2) Suc by blast
      then show "securityTunnel j (ts ! j) = None"
        using securityTunnel_index by simp
    qed
    have "securityTunnels (Suc k) ts = Some err"
      using Cons.IH [of i' "Suc k"] Cons.prems Suc earlier by simp
    then show ?thesis using head by simp
  qed
qed

lemma securityTunnels_fails:
  "securityTunnel j (ts ! i) \<noteq> None \<Longrightarrow> i < length ts \<Longrightarrow> securityTunnels k ts \<noteq> None"
proof (induction ts arbitrary: i k)
  case Nil
  then show ?case by simp
next
  case (Cons t ts)
  show ?case
  proof (cases "securityTunnel k t")
    case (Some e)
    then show ?thesis by simp
  next
    case None
    then have "securityTunnel j t = None"
      by (rule securityTunnel_index)
    then have "i \<noteq> 0"
      using Cons.prems(1) by (cases i) auto
    then obtain i' where i: "i = Suc i'"
      by (cases i) auto
    then have "securityTunnels (Suc k) ts \<noteq> None"
      using Cons.IH [of i' "Suc k"] Cons.prems by simp
    then show ?thesis using None by simp
  qed
qed

text \<open>
  Claim C8, as amended. A structurally valid policy that holds a PSK tunnel with a
  secret of fewer than 8 bytes is refused by the security group. The security group
  returns the error of the first tunnel, in the order of the policy, that breaks one of
  its rules: when every tunnel before the one with the short secret passes the security
  rules, the error cites the length of that secret, or says that the secret is
  required when it is empty; otherwise it is the error of the first tunnel before it
  that breaks a rule. The three groups run in the order structural, security,
  platform, and the first error is the result.
\<close>

theorem Validate_short_PSK:
  assumes "BasicValidator_Validate policy = None"
    and "i < length (Tunnels policy)"
    and "Type (Auth (Tunnels policy ! i)) = AuthPSK"
    and "length (Secret (Auth (Tunnels policy ! i))) < 8"
  shows "(\<exists>err. Validate NewPolicyEngine policy = Some (PolicyValidationFailed (Security err)))
       \<and> ((\<forall>j<i. securityTunnel j (Tunnels policy ! j) = None)
          \<longrightarrow> Validate NewPolicyEngine policy =
                Some (PolicyValidationFailed (Security
                  (if Secret (Auth (Tunnels policy ! i)) = []
                   then PSKSecretRequired i (Name (Tunnels policy ! i))
                   else PSKSecretTooShort i (Name (Tunnels policy ! i))))))
       \<and> (\<forall>j err. j < i \<and> (\<forall>k<j. securityTunnel k (Tunnels policy ! k) = None)
                   \<and> securityTunnel j (Tunnels policy ! j) = Some err
          \<longrightarrow> Validate NewPolicyEngine policy = Some (PolicyValidationFailed (Security err)))
       \<and> Validate NewPolicyEngine policy =
           (case BasicValidator_Validate policy of
              Some err \<Rightarrow> Some (PolicyValidationFailed (Structural err))
            | None \<Rightarrow>
                (case SecurityValidator_Validate policy of
                   Some err \<Rightarrow> Some (PolicyValidationFailed (Security err))
                 | None \<Rightarrow>
                     (case PlatformCompatibilityValidator_Validate policy of
                        Some err \<Rightarrow> Some (PolicyValidationFailed (PlatformCompatibility err))
                      | None \<Rightarrow> None)))"
proof -
  let ?ts = "Tunnels policy"
  have first: "Validate NewPolicyEngine policy = Some (PolicyValidationFailed (Security err))"
    if "j < length ?ts" and "\<forall>k<j. securityTunnel k (?ts ! k) = None"
      and "securityTunnel j (?ts ! j) = Some err" for j err
  proof -
    have "securityTunnel (0 + j) (?ts ! j) = Some err"
      using that(3) by simp
    then have "SecurityValidator_Validate policy = Some err"
      unfolding SecurityValidator_Validate_def
      using securityTunnels_first [OF that(1), where k = 0 and err = err] that(2) by blast
    then show ?thesis
      using assms(1) by (simp add: Validate_in_order)
  qed
  have g1: "\<exists>err. Validate NewPolicyEngine policy = Some (PolicyValidationFailed (Security err))"
  proof -
    have bad: "securityTunnel i (?ts ! i) \<noteq> None"
      using securityTunnel_short_PSK [OF assms(3,4), of i] by simp
    have "SecurityValidator_Validate policy \<noteq> None"
      unfolding SecurityValidator_Validate_def
      using securityTunnels_fails [OF bad assms(2)] .
    then obtain err where "SecurityValidator_Validate policy = Some err"
      by auto
    then show ?thesis
      using assms(1) by (simp add: Validate_in_order)
  qed
  have g2: "(\<forall>j<i. securityTunnel j (?ts ! j) = None)
          \<longrightarrow> Validate NewPolicyEngine policy =
                Some (PolicyValidationFailed (Security
                  (if Secret (Auth (?ts ! i)) = []
                   then PSKSecretRequired i (Name (?ts ! i))
                   else PSKSecretTooShort i (Name (?ts ! i)))))"
  proof
    assume earlier: "\<forall>j<i. securityTunnel j (?ts ! j) = None"
    show "Validate NewPolicyEngine policy =
                Some (PolicyValidationFailed (Security
                  (if Secret (Auth (?ts ! i)) = []
                   then PSKSecretRequired i (Name (?ts ! i))
                   else PSKSecretTooShort i (Name (?ts ! i)))))"
      using first [OF assms(2) earlier securityTunnel_short_PSK [OF assms(3,4), of i]] .
  qed
  have g3: "\<forall>j err. j < i \<and> (\<forall>k<j. securityTunnel k (?ts ! k) = None)
                   \<and> securityTunnel j (?ts ! j) = Some err
          \<longrightarrow> Validate NewPolicyEngine policy = Some (PolicyValidationFailed (Security err))"
  proof (intro allI impI)
    fix j err
    assume h: "j < i \<and> (\<forall>k<j. securityTunnel k (?ts ! k) = None)
                   \<and> securityTunnel j (?ts ! j) = Some err"
    then have "j < length ?ts"
      using assms(2) by simp
    then show "Validate NewPolicyEngine policy = Some (PolicyValidationFailed (Security err))"
      using first [of j err] h by blast
  qed
  have g4: "Validate NewPolicyEngine policy =
           (case BasicValidator_Validate policy of
              Some err \<Rightarrow> Some (PolicyValidationFailed (Structural err))
            | None \<Rightarrow>
                (case SecurityValidator_Validate policy of
                   Some err \<Rightarrow> Some (PolicyValidationFailed (Security err))
                 | None \<Rightarrow>
                     (case PlatformCompatibilityValidator_Validate policy of
                        Some err \<Rightarrow> Some (PolicyValidationFailed (PlatformCompatibility err))
                      | None \<Rightarrow> None)))"
    by (rule Validate_in_order)
  show ?thesis
    by (rule conjI [OF g1 conjI [OF g2 conjI [OF g3 g4]]])
qed

lemmas fixture_defs = policyWith_def pskTunnel_def exampleTunnel_def DefaultPolicy_def
  BasicValidator_Validate_def validateTunnel_def AuthPSK_def

text \<open>The scenario of the specification: the only tunnel, T1, has the PSK
  \<^verbatim>\<open>short\<close>.\<close>

theorem Validate_short_PSK_witness:
  "BasicValidator_Validate (policyWith ''p'' 0 [] [pskTunnel ''T1'' ''short'']) = None
   \<and> (0::nat) < length (Tunnels (policyWith ''p'' 0 [] [pskTunnel ''T1'' ''short'']))
   \<and> Type (Auth (Tunnels (policyWith ''p'' 0 [] [pskTunnel ''T1'' ''short'']) ! 0)) = AuthPSK
   \<and> length (Secret (Auth (Tunnels (policyWith ''p'' 0 [] [pskTunnel ''T1'' ''short'']) ! 0))) < 8
   \<and> Validate NewPolicyEngine (policyWith ''p'' 0 [] [pskTunnel ''T1'' ''short''])
       = Some (PolicyValidationFailed (Security (PSKSecretTooShort 0 ''T1'')))"
proof -
  let ?p = "policyWith ''p'' 0 [] [pskTunnel ''T1'' ''short'']"
  have h1: "BasicValidator_Validate ?p = None"
    by (simp add: fixture_defs)
  have h2: "(0::nat) < length (Tunnels ?p)"
    by (simp add: fixture_defs)
  have h3: "Type (Auth (Tunnels ?p ! 0)) = AuthPSK"
    by (simp add: fixture_defs)
  have h4: "length (Secret (Auth (Tunnels ?p ! 0))) < 8"
    by (simp add: fixture_defs)
  have h5: "Secret (Auth (Tunnels ?p ! 0)) \<noteq> []"
    by (simp add: fixture_defs)
  have h6: "Name (Tunnels ?p ! 0) = ''T1''"
    by (simp add: fixture_defs)
  have h7: "\<forall>j<0. securityTunnel j (Tunnels ?p ! j) = None"
    by simp
  have r: "Validate NewPolicyEngine ?p
             = Some (PolicyValidationFailed (Security (PSKSecretTooShort 0 ''T1'')))"
    using mp [OF conjunct1 [OF conjunct2 [OF Validate_short_PSK [OF h1 h2 h3 h4]]] h7]
    by (simp only: h5 h6 if_False)
  show ?thesis
    by (intro conjI h1 h2 h3 h4 r)
qed

text \<open>
  Claim C8 as stated fails. Before the tunnel with the short secret, a tunnel with the
  encryption \<^verbatim>\<open>des\<close> makes the security group cite the algorithm of tunnel 0; an empty
  secret is reported as a missing secret; and a secret of four two-byte characters
  (the bytes C3 A9, four times) has 8 bytes, so the policy is accepted.
\<close>

theorem Validate_short_PSK_counterexample:
  "BasicValidator_Validate
      (policyWith ''p'' 0 [] [vpn1 ''des'', pskTunnel ''T1'' ''short'']) = None
   \<and> Type (Auth (pskTunnel ''T1'' ''short'')) = AuthPSK
   \<and> length (Secret (Auth (pskTunnel ''T1'' ''short''))) < 8
   \<and> Validate NewPolicyEngine
       (policyWith ''p'' 0 [] [vpn1 ''des'', pskTunnel ''T1'' ''short''])
       = Some (PolicyValidationFailed (Security (InvalidEncryption 0 ''vpn1'' ''des'')))
   \<and> BasicValidator_Validate (policyWith ''p'' 0 [] [pskTunnel ''T1'' []]) = None
   \<and> Type (Auth (pskTunnel ''T1'' [])) = AuthPSK
   \<and> length (Secret (Auth (pskTunnel ''T1'' []))) < 8
   \<and> Validate NewPolicyEngine (policyWith ''p'' 0 [] [pskTunnel ''T1'' []])
       = Some (PolicyValidationFailed (Security (PSKSecretRequired 0 ''T1'')))
   \<and> BasicValidator_Validate (policyWith ''p'' 0 [] [pskTunnel ''T1'' fourAccents]) = None
   \<and> Type (Auth (pskTunnel ''T1'' fourAccents)) = AuthPSK
   \<and> utf8Characters (Secret (Auth (pskTunnel ''T1'' fourAccents))) = 4
   \<and> length (Secret (Auth (pskTunnel ''T1'' fourAccents))) = 8
   \<and> Validate NewPolicyEngine (policyWith ''p'' 0 [] [pskTunnel ''T1'' fourAccents]) = None"
  by (simp add: fixture_defs vpn1_def Validate_def NewPolicyEngine_def
      SecurityValidator_Validate_def securityTunnel_def securityAuth_def securityCrypto_def
      PlatformCompatibilityValidator_Validate_def
      isValidEncryption_def isValidIntegrity_def isValidDHGroup_def
      EncryptionAES128_def EncryptionAES256_def
      EncryptionAES128GCM_def EncryptionAES256GCM_def Encryption3DES_def
      IntegritySHA1_def IntegritySHA256_def IntegritySHA384_def IntegritySHA512_def
      DHGroupModp1024_def DHGroupModp1536_def DHGroupModp2048_def DHGroupModp3072_def
      DHGroupModp4096_def DHGroupModp8192_def DHGroupECP256_def DHGroupECP384_def
      DHGroupECP521_def Hour_def Minute_def Second_def
      utf8Characters_def fourAccents_def)

section \<open>The agent\<close>

subsection \<open>The calls of one pass of applyPolicies\<close>




lemma desiredLoop_enabled: "desiredLoop ps m = mergeLoop (filter Enabled ps) m"
  by (induction ps arbitrary: m) auto

lemma desiredLoop_targets:
  "desiredLoop (map (\<lambda>p. p\<lparr>AppliesTo := targets p\<rparr>) ps) m = desiredLoop ps m"
  by (induction ps arbitrary: m) auto




lemma calls_createOrUpdateLoop:
  "map fst (fst (createOrUpdateLoop mgr d c ks w)) =
     List.map_filter
       (\<lambda>n. map_option (\<lambda>t. if lookupBool c n then UpdateCall t else CreateCall t) (d n)) ks"
proof (induction ks arbitrary: w)
  case Nil
  show ?case by (simp add: List.map_filter_simps)
next
  case (Cons n ks)
  have IH: "map fst evs =
      List.map_filter
        (\<lambda>n. map_option (\<lambda>t. if lookupBool c n then UpdateCall t else CreateCall t) (d n)) ks"
    if "createOrUpdateLoop mgr d c ks w' = (evs, w'')" for evs w' w''
    using Cons.IH [of w'] that by simp
  show ?case
    using Cons.IH
    by (auto simp: List.map_filter_simps split: prod.splits option.splits dest: IH)
qed

lemma calls_deleteLoop:
  "map fst (fst (deleteLoop mgr d ks w)) = map DeleteCall (filter (\<lambda>n. d n = None) ks)"
proof (induction ks arbitrary: w)
  case Nil
  show ?case by simp
next
  case (Cons n ks)
  have IH: "map fst evs = map DeleteCall (filter (\<lambda>n. d n = None) ks)"
    if "deleteLoop mgr d ks w' = (evs, w'')" for evs w' w''
    using Cons.IH [of w'] that by simp
  show ?case
    using Cons.IH by (auto split: prod.splits dest: IH)
qed



lemma applyPolicies_result:
  "fst (applyPolicies mgr desiredKeys currentKeys a policies w)
     = (None, a\<lparr>currentTunnels := desiredLoop policies Map.empty\<rparr>)"
  by (simp add: applyPolicies_def Let_def split: prod.splits)









subsection \<open>What applyPolicies reads of a policy\<close>

lemma dom_putTunnels: "dom (putTunnels ts m) = dom m \<union> Name ` set ts"
  by (induction ts arbitrary: m) auto

lemma dom_mergeLoop: "dom (mergeLoop ps m) = dom m \<union> (\<Union>p\<in>set ps. Name ` set (Tunnels p))"
  by (induction ps arbitrary: m) (auto simp: dom_putTunnels)

lemma putTunnels_last:
  "putTunnels ts m n =
     (if filter (\<lambda>t. Name t = n) ts = [] then m n
      else Some (last (filter (\<lambda>t. Name t = n) ts)))"
  by (induction ts arbitrary: m) auto

lemma mergeLoop_concat: "mergeLoop ps m = putTunnels (concat (map Tunnels ps)) m"
proof (induction ps arbitrary: m)
  case Nil
  show ?case by simp
next
  case (Cons p ps)
  have app: "putTunnels (xs @ ys) m' = putTunnels ys (putTunnels xs m')" for xs ys m'
    by (induction xs arbitrary: m') auto
  show ?case
    using Cons.IH by (simp add: app)
qed

text \<open>
  Claim C2, as amended. The agent does not filter the fetched list by targets: of a
  policy, \<^verbatim>\<open>applyPolicies\<close> reads \<^verbatim>\<open>Enabled\<close> and \<^verbatim>\<open>Tunnels\<close> only. The desired mapping is
  the merge, in the fetched order, of the tunnels of the enabled policies: its keys are
  the tunnel names of the enabled policies, whatever their targets, and under a name it
  holds the last tunnel of that name in the fetched order of the enabled policies, a
  later tunnel replacing an earlier one of the same name. A disabled policy contributes
  nothing, and rewriting the targets of the fetched policies changes nothing of the pass.
\<close>

theorem applyPolicies_reads_enabled_only:
  "currentTunnels (snd (fst (applyPolicies mgr desiredKeys currentKeys a policies w)))
     = mergeLoop (filter Enabled policies) Map.empty
   \<and> dom (currentTunnels (snd (fst (applyPolicies mgr desiredKeys currentKeys a policies w))))
     = (\<Union>p\<in>set (filter Enabled policies). Name ` set (Tunnels p))
   \<and> (\<forall>n. currentTunnels (snd (fst (applyPolicies mgr desiredKeys currentKeys a policies w))) n
         = (if filter (\<lambda>t. Name t = n) (concat (map Tunnels (filter Enabled policies))) = []
            then None
            else Some (last (filter (\<lambda>t. Name t = n)
                               (concat (map Tunnels (filter Enabled policies)))))))
   \<and> applyPolicies mgr desiredKeys currentKeys a
       (map (\<lambda>p. p\<lparr>AppliesTo := targets p\<rparr>) policies) w
     = applyPolicies mgr desiredKeys currentKeys a policies w"
proof -
  have g1: "currentTunnels (snd (fst (applyPolicies mgr desiredKeys currentKeys a policies w)))
     = mergeLoop (filter Enabled policies) Map.empty"
    by (simp add: applyPolicies_result desiredLoop_enabled)
  have g2: "dom (currentTunnels (snd (fst (applyPolicies mgr desiredKeys currentKeys a policies w))))
     = (\<Union>p\<in>set (filter Enabled policies). Name ` set (Tunnels p))"
    unfolding g1 dom_mergeLoop by simp
  have g3: "\<forall>n. currentTunnels (snd (fst (applyPolicies mgr desiredKeys currentKeys a policies w))) n
         = (if filter (\<lambda>t. Name t = n) (concat (map Tunnels (filter Enabled policies))) = []
            then None
            else Some (last (filter (\<lambda>t. Name t = n)
                               (concat (map Tunnels (filter Enabled policies))))))"
    unfolding g1 mergeLoop_concat
    using putTunnels_last [of "concat (map Tunnels (filter Enabled policies))" Map.empty]
    by simp
  have g4: "applyPolicies mgr desiredKeys currentKeys a
       (map (\<lambda>p. p\<lparr>AppliesTo := targets p\<rparr>) policies) w
     = applyPolicies mgr desiredKeys currentKeys a policies w"
    unfolding applyPolicies_def desiredLoop_targets by (rule refl)
  show ?thesis
    by (rule conjI [OF g1 conjI [OF g2 conjI [OF g3 g4]]])
qed

text \<open>
  Claim C2 as stated fails: the server answers with an enabled policy whose only
  target is another node. The policy engine's filter drops it for the agent's node, yet
  one sync records its tunnel as desired and creates it at the backend.
\<close>

theorem syncPolicies_applies_untargeted_policy:
  "Enabled (policyWith ''p'' 0 [''other-node''] [exampleTunnel])
   \<and> FilterPoliciesForPeer [policyWith ''p'' 0 [''other-node''] [exampleTunnel]]
       (peerWith ''n1'' [''web'']) = []
   \<and> currentTunnels (snd (fst (syncPolicies (mockManager False [] StateDown)
        (mockHttp (DoFailed ''unreachable'')
           (policiesReply [policyWith ''p'' 0 [''other-node''] [exampleTunnel]]))
        [''example-tunnel''] [] (agentWith ''n1'' Map.empty) []))) ''example-tunnel''
       = Some exampleTunnel
   \<and> map fst (fst (snd (syncPolicies (mockManager False [] StateDown)
        (mockHttp (DoFailed ''unreachable'')
           (policiesReply [policyWith ''p'' 0 [''other-node''] [exampleTunnel]]))
        [''example-tunnel''] [] (agentWith ''n1'' Map.empty) [])))
       = [HttpCall (GetPolicies ''n1''), ListCall, CreateCall exampleTunnel]"
  by (simp add: syncPolicies_def applyPolicies_def Let_def mockHttp_def policiesReply_def
      mockManager_def policyWith_def peerWith_def agentWith_def exampleTunnel_def
      DefaultPolicy_def FilterPoliciesForPeer_def lookupBool_def)

subsection \<open>The watchdog\<close>








subsection \<open>Registration\<close>

lemma calls_register:
  "\<exists>peer. map fst (fst (snd (register http host a w))) = [HttpCall (RegisterPeer peer)]"
  by (simp add: register_def Let_def split: prod.splits)

lemma map_filter_member: "c \<in> set (List.map_filter f ks) \<Longrightarrow> \<exists>k. f k = Some c"
  by (induction ks) (auto simp: List.map_filter_simps split: option.splits)

lemma no_http_applyPolicies:
  "HttpCall req \<notin> fst ` set (fst (snd (applyPolicies mgr desiredKeys currentKeys a policies w)))"
proof -
  obtain current err w1 where l: "ListTunnels mgr w = ((current, err), w1)"
    by (cases "ListTunnels mgr w") auto
  let ?d = "desiredLoop policies Map.empty"
  let ?c = "namesLoop current Map.empty"
  obtain evs1 w2 where cu: "createOrUpdateLoop mgr ?d ?c desiredKeys w1 = (evs1, w2)"
    by (cases "createOrUpdateLoop mgr ?d ?c desiredKeys w1")
  obtain evs2 w3 where dl: "deleteLoop mgr ?d currentKeys w2 = (evs2, w3)"
    by (cases "deleteLoop mgr ?d currentKeys w2")
  have evs: "fst (snd (applyPolicies mgr desiredKeys currentKeys a policies w))
               = (ListCall, Statuses current err) # evs1 @ evs2"
    using l cu dl by (simp add: applyPolicies_def Let_def)
  have "HttpCall req \<notin> set (map fst evs1)"
    using calls_createOrUpdateLoop [of mgr ?d ?c desiredKeys w1] cu
    by (auto dest!: map_filter_member split: if_splits)
  moreover have "HttpCall req \<notin> set (map fst evs2)"
    using calls_deleteLoop [of mgr ?d currentKeys w2] dl by auto
  ultimately show ?thesis
    unfolding evs by auto
qed

lemma syncPolicies_never_registers:
  "HttpCall (RegisterPeer peer)
     \<notin> fst ` set (fst (snd (syncPolicies mgr http desiredKeys currentKeys a w)))"
proof -
  obtain res w1 where h: "http (GetPolicies (agent_id a)) w = (res, w1)"
    by (cases "http (GetPolicies (agent_id a)) w")
  show ?thesis
  proof (cases res)
    case (NewRequestFailed err)
    then show ?thesis using h by (simp add: syncPolicies_def)
  next
    case (DoFailed err)
    then show ?thesis using h by (simp add: syncPolicies_def)
  next
    case (Reply resp)
    show ?thesis
    proof (cases "StatusCode resp \<noteq> 200")
      case True
      then show ?thesis using h Reply by (simp add: syncPolicies_def)
    next
      case False
      show ?thesis
      proof (cases "Decoded resp")
        case (Inl err)
        then show ?thesis using h Reply False by (simp add: syncPolicies_def)
      next
        case (Inr policies)
        obtain e a' evs w2 where
          ap: "applyPolicies mgr desiredKeys currentKeys a policies w1 = ((e, a'), evs, w2)"
          by (cases "applyPolicies mgr desiredKeys currentKeys a policies w1") auto
        have "HttpCall (RegisterPeer peer) \<notin> fst ` set evs"
          using no_http_applyPolicies [of "RegisterPeer peer" mgr desiredKeys currentKeys a
              policies w1] ap by simp
        then show ?thesis
          using h Reply False Inr ap by (cases e) (simp_all add: syncPolicies_def)
      qed
    qed
  qed
qed

lemma policySyncLoop_never_registers:
  "HttpCall (RegisterPeer peer) \<notin> fst ` set (fst (snd (policySyncLoop mgr http cases a w)))"
proof (induction cases arbitrary: a w)
  case Nil
  show ?case by simp
next
  case (Cons c cases)
  show ?case
  proof (cases c)
    case (TickerC desiredKeys currentKeys)
    obtain e a' evs w' where
      sp: "syncPolicies mgr http desiredKeys currentKeys a w = ((e, a'), evs, w')"
      by (cases "syncPolicies mgr http desiredKeys currentKeys a w") auto
    obtain a'' evs' w'' where lp: "policySyncLoop mgr http cases a' w' = (a'', evs', w'')"
      by (cases "policySyncLoop mgr http cases a' w'")
    have "HttpCall (RegisterPeer peer) \<notin> fst ` set evs"
      using syncPolicies_never_registers [of peer mgr http desiredKeys currentKeys a w] sp
      by simp
    moreover have "HttpCall (RegisterPeer peer) \<notin> fst ` set evs'"
      using Cons.IH [of a' w'] lp by simp
    ultimately show ?thesis
      using TickerC sp lp by auto
  next
    case StopCh
    then show ?thesis by simp
  next
    case CtxDone
    then show ?thesis by simp
  qed
qed

lemma Start_returns_nil: "fst (fst (Start mgr http host desiredKeys currentKeys a w)) = None"
  by (simp add: Start_def split: prod.splits)

text \<open>
  Claim C9 (the code departs from it). A registration that fails in \<^verbatim>\<open>Start\<close> is
  logged and \<^verbatim>\<open>Start\<close> returns \<^verbatim>\<open>nil\<close>, but nothing registers again: a tick of the sync
  loop calls \<^verbatim>\<open>syncPolicies\<close> only, so whatever the ticks, the loop never sends the
  registration request.
\<close>

theorem registration_failure_not_retried:
  "fst (register (mockHttp (DoFailed ''connection refused'') (policiesReply [])) exampleHost
          (agentWith ''n1'' Map.empty) ([] :: string list))
     = Some (FailedToRegister ''connection refused'')
   \<and> fst (fst (Start (mockManager False [] StateDown)
          (mockHttp (DoFailed ''connection refused'') (policiesReply [])) exampleHost [] []
          (agentWith ''n1'' Map.empty) [])) = None
   \<and> map fst (fst (snd (policySyncLoop (mockManager False [] StateDown)
          (mockHttp (DoFailed ''connection refused'') (policiesReply []))
          [TickerC [] [], TickerC [] [], StopCh] (agentWith ''n1'' Map.empty) [])))
     = [HttpCall (GetPolicies ''n1''), ListCall, HttpCall (GetPolicies ''n1''), ListCall]
   \<and> (\<forall>peer. HttpCall (RegisterPeer peer)
          \<notin> fst ` set (fst (snd (policySyncLoop mgr http cases a w))))"
proof -
  have g1: "fst (register (mockHttp (DoFailed ''connection refused'') (policiesReply []))
          exampleHost (agentWith ''n1'' Map.empty) ([] :: string list))
     = Some (FailedToRegister ''connection refused'')"
    by (simp add: register_def mockHttp_def Let_def)
  have g2: "fst (fst (Start (mockManager False [] StateDown)
          (mockHttp (DoFailed ''connection refused'') (policiesReply [])) exampleHost [] []
          (agentWith ''n1'' Map.empty) [])) = None"
    by (rule Start_returns_nil)
  have g3: "map fst (fst (snd (policySyncLoop (mockManager False [] StateDown)
          (mockHttp (DoFailed ''connection refused'') (policiesReply []))
          [TickerC [] [], TickerC [] [], StopCh] (agentWith ''n1'' Map.empty) [])))
     = [HttpCall (GetPolicies ''n1''), ListCall, HttpCall (GetPolicies ''n1''), ListCall]"
    by (simp add: syncPolicies_def applyPolicies_def Let_def mockHttp_def policiesReply_def
        mockManager_def agentWith_def)
  have g4: "\<forall>peer. HttpCall (RegisterPeer peer)
          \<notin> fst ` set (fst (snd (policySyncLoop mgr http cases a w)))"
    by (intro allI) (rule policySyncLoop_never_registers)
  show ?thesis
    by (rule conjI [OF g1 conjI [OF g2 conjI [OF g3 g4]]])
qed

end
